theory Spec2Isabelle
  imports Complex_Main "HOL-Library.Sublist"
begin

section \<open>Python values\<close>

text \<open>
  The arguments of the constructor are annotated \<^verbatim>\<open>str\<close> but default to \<^verbatim>\<open>None\<close> and are
  checked at run time, so they are modelled as Python values: a string, \<^verbatim>\<open>None\<close>, or any
  other object, given by the text an f-string renders for it. Strings are lists of bytes
  (the UTF-8 encoding of the Python string), so \<^verbatim>\<open>str.encode()\<close> and \<^verbatim>\<open>bytes.decode()\<close> are
  the identity.
\<close>

datatype pyval = PyStr string | PyNone | PyOther string

text \<open>\<^verbatim>\<open>type(x) == str\<close>\<close>

fun is_str :: "pyval \<Rightarrow> bool" where
  "is_str (PyStr s) = True"
| "is_str PyNone = False"
| "is_str (PyOther t) = False"

text \<open>\<^verbatim>\<open>f"{x}"\<close>\<close>

fun format :: "pyval \<Rightarrow> string" where
  "format (PyStr s) = s"
| "format PyNone = ''None''"
| "format (PyOther t) = t"

text \<open>What \<^verbatim>\<open>Response.json()\<close> returns: a parsed JSON document. An object is the parsed
  \<^verbatim>\<open>dict\<close>, as an association list in insertion order.\<close>

datatype json =
    JNull
  | JBool bool
  | JNum real
  | JStr string
  | JArr "json list"
  | JObj "(string \<times> json) list"

text \<open>The exceptions the code can raise. A \<^verbatim>\<open>TypeError\<close> carries the message the code gives
  it, or \<open>None\<close> when the interpreter raises it (an operand of the wrong type).
  \<^verbatim>\<open>RequestException\<close> stands for what \<^verbatim>\<open>requests\<close> raises when the network call fails,
  \<^verbatim>\<open>JSONDecodeError\<close> for a body that is not JSON.\<close>

datatype error =
    TypeError "string option"
  | KeyError string
  | AttributeError string
  | RequestException
  | JSONDecodeError

text \<open>\<^verbatim>\<open>key in response\<close>: membership among the keys of a dict, the elements of a list, the
  substrings of a string; other JSON values are not containers.\<close>

fun contains :: "json \<Rightarrow> string \<Rightarrow> error + bool" where
  "contains (JObj kvs) k = Inr (k \<in> set (map fst kvs))"
| "contains (JArr xs) k = Inr (JStr k \<in> set xs)"
| "contains (JStr s) k = Inr (sublist k s)"
| "contains JNull k = Inl (TypeError None)"
| "contains (JBool b) k = Inl (TypeError None)"
| "contains (JNum n) k = Inl (TypeError None)"

text \<open>\<^verbatim>\<open>response[key]\<close> with a string key.\<close>

fun getitem :: "json \<Rightarrow> string \<Rightarrow> error + json" where
  "getitem (JObj kvs) k = (case map_of kvs k of None \<Rightarrow> Inl (KeyError k) | Some v \<Rightarrow> Inr v)"
| "getitem (JArr xs) k = Inl (TypeError None)"
| "getitem (JStr s) k = Inl (TypeError None)"
| "getitem JNull k = Inl (TypeError None)"
| "getitem (JBool b) k = Inl (TypeError None)"
| "getitem (JNum n) k = Inl (TypeError None)"

text \<open>\<^verbatim>\<open>"Bearer " + access_token\<close>: only a string can be concatenated to a string.\<close>

fun concat_str :: "string \<Rightarrow> json \<Rightarrow> error + string" where
  "concat_str p (JStr s) = Inr (p @ s)"
| "concat_str p JNull = Inl (TypeError None)"
| "concat_str p (JBool b) = Inl (TypeError None)"
| "concat_str p (JNum n) = Inl (TypeError None)"
| "concat_str p (JArr xs) = Inl (TypeError None)"
| "concat_str p (JObj kvs) = Inl (TypeError None)"

section \<open>Base64\<close>

text \<open>\<^verbatim>\<open>base64.b64encode\<close> of the standard library (RFC 4648, with padding): three bytes
  become four characters of the alphabet.\<close>

definition b64_alphabet :: string where
  "b64_alphabet = ''ABCDEFGHIJKLMNOPQRSTUVWXYZabcdefghijklmnopqrstuvwxyz0123456789+/''"

definition b64_char :: "nat \<Rightarrow> char" where
  "b64_char n = b64_alphabet ! (n mod 64)"

fun b64_bytes :: "nat list \<Rightarrow> string" where
  "b64_bytes [] = []"
| "b64_bytes [a] =
     [b64_char (a div 4), b64_char ((a mod 4) * 16), CHR ''='', CHR ''='']"
| "b64_bytes [a, b] =
     [b64_char (a div 4), b64_char ((a mod 4) * 16 + b div 16),
      b64_char ((b mod 16) * 4), CHR ''='']"
| "b64_bytes (a # b # c # rest) =
     [b64_char (a div 4), b64_char ((a mod 4) * 16 + b div 16),
      b64_char ((b mod 16) * 4 + c div 64), b64_char (c mod 64)] @ b64_bytes rest"

definition b64encode :: "string \<Rightarrow> string" where
  "b64encode s = b64_bytes (map of_char s)"

section \<open>The environment: clock, network, standard output\<close>

datatype verb = GET | POST

text \<open>One call of \<^verbatim>\<open>requests.get\<close> or \<^verbatim>\<open>requests.post\<close>, with its keyword arguments; an
  argument that is not given is the empty dict.\<close>

record request =
  verb :: verb
  url :: string
  params :: "(string \<times> string) list"
  data :: "(string \<times> string) list"
  headers :: "(string \<times> string) list"

text \<open>A \<^verbatim>\<open>requests.Response\<close>: the status code, and the body as JSON when it parses.\<close>

record response =
  status_code :: nat
  body :: "json option"

text \<open>The two lines the constructor prints; the error line shows \<^verbatim>\<open>response["error"]\<close>.\<close>

datatype line = AccessGranted | ErrorLine json

text \<open>
  The world outside the object. \<open>clock\<close> gives the value of the n-th call of \<^verbatim>\<open>time()\<close>
  and \<open>reads\<close> counts the calls made; Python's floats are idealised as reals.
  \<open>server\<close> answers a request, given the requests sent before it, with a response, or
  with \<open>None\<close> when the network fails; \<open>sent\<close> is the log of the requests issued, oldest
  first. \<open>printed\<close> is standard output.
\<close>

record world =
  clock :: "nat \<Rightarrow> real"
  reads :: nat
  server :: "request list \<Rightarrow> request \<Rightarrow> response option"
  sent :: "request list"
  printed :: "line list"

text \<open>\<^verbatim>\<open>time()\<close>\<close>

definition time :: "world \<Rightarrow> real \<times> world" where
  "time w = (clock w (reads w), w\<lparr>reads := Suc (reads w)\<rparr>)"

text \<open>\<^verbatim>\<open>requests.post\<close> and \<^verbatim>\<open>requests.get\<close>: the request goes out once and is logged; a
  network failure raises. The status code is not looked at.\<close>

definition requests_send :: "request \<Rightarrow> world \<Rightarrow> (error + response) \<times> world" where
  "requests_send r w =
     (case server w (sent w) r of
        None \<Rightarrow> Inl RequestException
      | Some resp \<Rightarrow> Inr resp,
      w\<lparr>sent := sent w @ [r]\<rparr>)"

definition requests_post ::
  "string \<Rightarrow> (string \<times> string) list \<Rightarrow> (string \<times> string) list \<Rightarrow> world
    \<Rightarrow> (error + response) \<times> world" where
  "requests_post u d h w =
     requests_send \<lparr>verb = POST, url = u, params = [], data = d, headers = h\<rparr> w"

definition requests_get ::
  "string \<Rightarrow> (string \<times> string) list \<Rightarrow> (string \<times> string) list \<Rightarrow> world
    \<Rightarrow> (error + response) \<times> world" where
  "requests_get u p h w =
     requests_send \<lparr>verb = GET, url = u, params = p, data = [], headers = h\<rparr> w"

text \<open>\<^verbatim>\<open>Response.json()\<close>\<close>

definition response_json :: "response \<Rightarrow> error + json" where
  "response_json r = (case body r of None \<Rightarrow> Inl JSONDecodeError | Some j \<Rightarrow> Inr j)"

section \<open>The class SpotifyAPI\<close>

text \<open>An instance is its attributes; an attribute that has not been assigned is \<open>None\<close>,
  and reading it raises \<^verbatim>\<open>AttributeError\<close>.\<close>

record SpotifyAPI =
  urls :: "(string \<times> string) list option"
  client_id :: "pyval option"
  client_secret :: "pyval option"
  start :: "real option"
  api_headers :: "(string \<times> string) list option"
  access_token :: "int option"

definition blank :: SpotifyAPI where
  "blank = \<lparr>urls = None, client_id = None, client_secret = None, start = None,
            api_headers = None, access_token = None\<rparr>"

definition url_table :: "(string \<times> string) list" where
  "url_table =
     [(''api'', ''https://api.spotify.com/v1/''),
      (''auth'', ''https://accounts.spotify.com/api/token'')]"

text \<open>\<^verbatim>\<open>self.urls[key]\<close>\<close>

definition lookup_url :: "SpotifyAPI \<Rightarrow> string \<Rightarrow> error + string" where
  "lookup_url self k =
     (case urls self of
        None \<Rightarrow> Inl (AttributeError ''urls'')
      | Some tbl \<Rightarrow> (case map_of tbl k of None \<Rightarrow> Inl (KeyError k) | Some u \<Rightarrow> Inr u))"

text \<open>The second half of \<^verbatim>\<open>__init__\<close> (lines 59 to 74): what is done with the parsed
  response of the authorization endpoint.\<close>

definition handle_auth ::
  "json \<Rightarrow> SpotifyAPI \<Rightarrow> world \<Rightarrow> (error + unit) \<times> SpotifyAPI \<times> world" where
  "handle_auth resp self w =
     (case contains resp ''access_token'' of
        Inl e \<Rightarrow> (Inl e, self, w)
      | Inr True \<Rightarrow>
          (let (t, w1) = time w;
               self1 = self\<lparr>start := Some t\<rparr>
           in case getitem resp ''access_token'' of
                Inl e \<Rightarrow> (Inl e, self1, w1)
              | Inr tok \<Rightarrow>
                  (case concat_str ''Bearer '' tok of
                     Inl e \<Rightarrow> (Inl e, self1, w1)
                   | Inr bearer \<Rightarrow>
                       (Inr (),
                        self1\<lparr>api_headers := Some
                          [(''Accept'', ''application/json''),
                           (''Content-Type'', ''application/json''),
                           (''Authorization'', bearer)]\<rparr>,
                        w1\<lparr>printed := printed w1 @ [AccessGranted]\<rparr>)))
      | Inr False \<Rightarrow>
          (case getitem resp ''error'' of
             Inl e \<Rightarrow> (Inl e, self, w)
           | Inr msg \<Rightarrow>
               (Inr (),
                self\<lparr>access_token := Some 0\<rparr>,
                w\<lparr>printed := printed w @ [ErrorLine msg]\<rparr>)))"

text \<open>\<^verbatim>\<open>__init__(self, client_id, client_secret)\<close>. The object is returned also when an
  exception is raised: on renewal the caller still holds it.\<close>

definition init ::
  "SpotifyAPI \<Rightarrow> pyval \<Rightarrow> pyval \<Rightarrow> world \<Rightarrow> (error + unit) \<times> SpotifyAPI \<times> world" where
  "init self cid sec w =
     (if \<not> is_str cid \<and> \<not> is_str sec
      then (Inl (TypeError (Some ''Both client_id and client_secret must be strings'')), self, w)
      else
        let self1 = self\<lparr>urls := Some url_table, client_id := Some cid,
                          client_secret := Some sec\<rparr>;
            credentials = format cid @ '':'' @ format sec;
            credentials_b64 = b64encode credentials
        in case lookup_url self1 ''auth'' of
             Inl e \<Rightarrow> (Inl e, self1, w)
           | Inr u \<Rightarrow>
               (case requests_post u [(''grant_type'', ''client_credentials'')]
                       [(''Authorization'', ''Basic '' @ credentials_b64)] w of
                  (Inl e, w1) \<Rightarrow> (Inl e, self1, w1)
                | (Inr r, w1) \<Rightarrow>
                    (case response_json r of
                       Inl e \<Rightarrow> (Inl e, self1, w1)
                     | Inr resp \<Rightarrow> handle_auth resp self1 w1)))"

text \<open>\<^verbatim>\<open>SpotifyAPI(client_id, client_secret)\<close>: a fresh instance is initialised; when
  \<^verbatim>\<open>__init__\<close> raises, the caller gets no object.\<close>

definition construct :: "pyval \<Rightarrow> pyval \<Rightarrow> world \<Rightarrow> (error + SpotifyAPI) \<times> world" where
  "construct cid sec w =
     (case init blank cid sec w of
        (Inl e, self, w1) \<Rightarrow> (Inl e, w1)
      | (Inr u, self, w1) \<Rightarrow> (Inr self, w1))"

text \<open>\<^verbatim>\<open>update_token(self)\<close>: the clock is read first, then \<^verbatim>\<open>self.start\<close>.\<close>

definition update_token :: "SpotifyAPI \<Rightarrow> world \<Rightarrow> (error + unit) \<times> SpotifyAPI \<times> world" where
  "update_token self w =
     (let (t, w1) = time w
      in case start self of
           None \<Rightarrow> (Inl (AttributeError ''start''), self, w1)
         | Some s \<Rightarrow>
             (let elapsed = (t - s) / 3600
              in if elapsed > 1
                 then (case client_id self of
                         None \<Rightarrow> (Inl (AttributeError ''client_id''), self, w1)
                       | Some cid \<Rightarrow>
                           (case client_secret self of
                              None \<Rightarrow> (Inl (AttributeError ''client_secret''), self, w1)
                            | Some sec \<Rightarrow> init self cid sec w1))
                 else (Inr (), self, w1)))"

text \<open>The property \<^verbatim>\<open>genres\<close>: the renewal check, then the URL, then the headers, then
  the GET without parameters, then \<^verbatim>\<open>r.json()\<close>.\<close>

definition genres :: "SpotifyAPI \<Rightarrow> world \<Rightarrow> (error + json) \<times> SpotifyAPI \<times> world" where
  "genres self w =
     (case update_token self w of
        (Inl e, self1, w1) \<Rightarrow> (Inl e, self1, w1)
      | (Inr u, self1, w1) \<Rightarrow>
          (case lookup_url self1 ''api'' of
             Inl e \<Rightarrow> (Inl e, self1, w1)
           | Inr api \<Rightarrow>
               (case api_headers self1 of
                  None \<Rightarrow> (Inl (AttributeError ''api_headers''), self1, w1)
                | Some h \<Rightarrow>
                    (case requests_get (api @ ''recommendations/available-genre-seeds'') [] h w1 of
                       (Inl e, w2) \<Rightarrow> (Inl e, self1, w2)
                     | (Inr r, w2) \<Rightarrow> (response_json r, self1, w2)))))"

text \<open>\<^verbatim>\<open>search(self, q, t)\<close>: the parameters, the URL, the headers, the GET, then
  \<^verbatim>\<open>r.json()\<close>. There is no call of \<^verbatim>\<open>update_token\<close> in this method.\<close>

definition search ::
  "SpotifyAPI \<Rightarrow> string \<Rightarrow> string \<Rightarrow> world \<Rightarrow> (error + json) \<times> SpotifyAPI \<times> world" where
  "search self q t w =
     (let params = [(''q'', q), (''type'', t)]
      in case lookup_url self ''api'' of
           Inl e \<Rightarrow> (Inl e, self, w)
         | Inr api \<Rightarrow>
             (case api_headers self of
                None \<Rightarrow> (Inl (AttributeError ''api_headers''), self, w)
              | Some h \<Rightarrow>
                  (case requests_get (api @ ''search'') params h w of
                     (Inl e, w1) \<Rightarrow> (Inl e, self, w1)
                   | (Inr r, w1) \<Rightarrow> (response_json r, self, w1))))"

text \<open>A caller's sequence of operations on one instance. An exception of one operation is
  caught by the caller, who goes on with the same object.\<close>

datatype call = Genres | Search string string | UpdateToken

fun step :: "call \<Rightarrow> SpotifyAPI \<times> world \<Rightarrow> SpotifyAPI \<times> world" where
  "step Genres (self, w) = snd (genres self w)"
| "step (Search q t) (self, w) = snd (search self q t w)"
| "step UpdateToken (self, w) = snd (update_token self w)"

fun run :: "call list \<Rightarrow> SpotifyAPI \<times> world \<Rightarrow> SpotifyAPI \<times> world" where
  "run [] sw = sw"
| "run (c # cs) sw = run cs (step c sw)"

section \<open>Notation for the requests and for the result of a call\<close>

text \<open>The request \<^verbatim>\<open>__init__\<close> posts to the authorization endpoint for given credentials.\<close>

abbreviation token_request :: "pyval \<Rightarrow> pyval \<Rightarrow> request" where
  "token_request cid sec \<equiv>
     \<lparr>verb = POST, url = ''https://accounts.spotify.com/api/token'', params = [],
      data = [(''grant_type'', ''client_credentials'')],
      headers = [(''Authorization'', ''Basic '' @ b64encode (format cid @ '':'' @ format sec))]\<rparr>"

text \<open>A GET below the API root, with query parameters and headers.\<close>

abbreviation query_request ::
  "string \<Rightarrow> (string \<times> string) list \<Rightarrow> (string \<times> string) list \<Rightarrow> request" where
  "query_request path p h \<equiv>
     \<lparr>verb = GET, url = ''https://api.spotify.com/v1/'' @ path, params = p, data = [],
      headers = h\<rparr>"

text \<open>What a query returns for the answer of the server: the exceptions of
  \<^verbatim>\<open>requests.get\<close> and \<^verbatim>\<open>r.json()\<close>, or the parsed body.\<close>

abbreviation outcome :: "response option \<Rightarrow> error + json" where
  "outcome a \<equiv> (case a of None \<Rightarrow> Inl RequestException | Some r \<Rightarrow> response_json r)"

section \<open>Fixtures: mock endpoints, a simulated clock, an authenticated client\<close>

text \<open>A server that grants every token request and answers every GET with a list of genres.\<close>

definition granting_server :: "request list \<Rightarrow> request \<Rightarrow> response option" where
  "granting_server hist r =
     (if verb r = POST
      then Some \<lparr>status_code = 200, body = Some (JObj [(''access_token'', JStr ''NEW'')])\<rparr>
      else Some \<lparr>status_code = 200,
                 body = Some (JObj [(''genres'', JArr [JStr ''pop'', JStr ''rock''])])\<rparr>)"

text \<open>A server that rejects every token request with status 400 and every GET with
  status 401, both with a JSON body.\<close>

definition rejecting_server :: "request list \<Rightarrow> request \<Rightarrow> response option" where
  "rejecting_server hist r =
     (if verb r = POST
      then Some \<lparr>status_code = 400, body = Some (JObj [(''error'', JStr ''invalid_client'')])\<rparr>
      else Some \<lparr>status_code = 401,
                 body = Some (JObj [(''error'', JStr ''The access token expired'')])\<rparr>)"

text \<open>A world whose clock stands at \<open>t\<close>, with nothing sent or printed yet.\<close>

definition world_at ::
  "real \<Rightarrow> (request list \<Rightarrow> request \<Rightarrow> response option) \<Rightarrow> world" where
  "world_at t srv = \<lparr>clock = (\<lambda>n. t), reads = 0, server = srv, sent = [], printed = []\<rparr>"

text \<open>A client authenticated at time 0 with the token \<^verbatim>\<open>OLD\<close>.\<close>

definition old_headers :: "(string \<times> string) list" where
  "old_headers =
     [(''Accept'', ''application/json''), (''Content-Type'', ''application/json''),
      (''Authorization'', ''Bearer OLD'')]"

definition old_client :: SpotifyAPI where
  "old_client =
     \<lparr>urls = Some url_table, client_id = Some (PyStr ''id''),
      client_secret = Some (PyStr ''secret''), start = Some 0,
      api_headers = Some old_headers, access_token = None\<rparr>"

text \<open>What the requests of one stretch of the log have to satisfy: a POST among them is the
  token request built from the given stored credentials.\<close>

definition renewals_from :: "pyval option \<Rightarrow> pyval option \<Rightarrow> request list \<Rightarrow> bool" where
  "renewals_from cid sec new =
     list_all (\<lambda>r. verb r = GET \<or>
        (case (cid, sec) of
           (Some c, Some k) \<Rightarrow> r = token_request c k
         | _ \<Rightarrow> False)) new"

section \<open>Facts about the operations\<close>

lemma b64encode_id_secret: "b64encode ''id:secret'' = ''aWQ6c2VjcmV0''"
  by (simp add: b64encode_def b64_char_def b64_alphabet_def)

lemma b64encode_abc_None: "b64encode ''abc:None'' = ''YWJjOk5vbmU=''"
  by (simp add: b64encode_def b64_char_def b64_alphabet_def)

lemma lookup_url_api:
  "urls self = Some url_table \<Longrightarrow> lookup_url self ''api'' = Inr ''https://api.spotify.com/v1/''"
  by (simp add: lookup_url_def url_table_def)

lemma lookup_url_auth:
  "urls self = Some url_table \<Longrightarrow>
   lookup_url self ''auth'' = Inr ''https://accounts.spotify.com/api/token''"
  by (simp add: lookup_url_def url_table_def)

lemma search_eq:
  assumes "urls self = Some url_table" and "api_headers self = Some h"
  shows "search self q t w =
    (outcome (server w (sent w) (query_request ''search'' [(''q'', q), (''type'', t)] h)), self,
     w\<lparr>sent := sent w @ [query_request ''search'' [(''q'', q), (''type'', t)] h]\<rparr>)"
  using assms
  by (simp add: search_def lookup_url_api requests_get_def requests_send_def
      split: option.splits)

lemma genres_eq:
  assumes "update_token self w = (Inr u, self1, w1)"
    and "urls self1 = Some url_table" and "api_headers self1 = Some h"
  shows "genres self w =
    (outcome (server w1 (sent w1)
       (query_request ''recommendations/available-genre-seeds'' [] h)), self1,
     w1\<lparr>sent := sent w1 @ [query_request ''recommendations/available-genre-seeds'' [] h]\<rparr>)"
  using assms
  by (simp add: genres_def lookup_url_api requests_get_def requests_send_def
      split: option.splits)

lemma search_keeps:
  assumes "search self q t w = (res, self', w')"
  shows "self' = self \<and> (sent w' = sent w \<or> (\<exists>r. verb r = GET \<and> sent w' = sent w @ [r]))"
  using assms
  by (auto simp: search_def requests_get_def requests_send_def
      split: sum.splits option.splits)

lemma handle_auth_keeps:
  assumes "handle_auth resp self w = (res, self', w')"
  shows "urls self' = urls self \<and> client_id self' = client_id self \<and>
         client_secret self' = client_secret self \<and> sent w' = sent w"
  using assms
  by (auto simp: handle_auth_def time_def Let_def split: sum.splits bool.splits)

lemma handle_auth_rejected:
  assumes "contains resp ''access_token'' = Inr False"
  shows "handle_auth resp self w =
    (case getitem resp ''error'' of
       Inl e \<Rightarrow> (Inl e, self, w)
     | Inr msg \<Rightarrow> (Inr (), self\<lparr>access_token := Some 0\<rparr>,
                   w\<lparr>printed := printed w @ [ErrorLine msg]\<rparr>))"
  using assms by (simp add: handle_auth_def)

lemma handle_auth_field:
  assumes "map_of kvs ''access_token'' = Some v"
  shows "handle_auth (JObj kvs) self w =
    (case concat_str ''Bearer '' v of
       Inl e \<Rightarrow> (Inl e, self\<lparr>start := Some (clock w (reads w))\<rparr>, w\<lparr>reads := Suc (reads w)\<rparr>)
     | Inr bearer \<Rightarrow>
         (Inr (),
          self\<lparr>start := Some (clock w (reads w)),
               api_headers := Some [(''Accept'', ''application/json''),
                 (''Content-Type'', ''application/json''), (''Authorization'', bearer)]\<rparr>,
          w\<lparr>reads := Suc (reads w), printed := printed w @ [AccessGranted]\<rparr>))"
proof -
  from assms have "(''access_token'', v) \<in> set kvs"
    by (rule map_of_SomeD)
  then have "''access_token'' \<in> fst ` set kvs"
    by force
  with assms show ?thesis
    by (simp add: handle_auth_def time_def split: sum.splits)
qed

lemma init_eq:
  assumes "is_str cid \<or> is_str sec"
  shows "init self cid sec w =
    (let self1 = self\<lparr>urls := Some url_table, client_id := Some cid, client_secret := Some sec\<rparr>;
         w1 = w\<lparr>sent := sent w @ [token_request cid sec]\<rparr>
     in case server w (sent w) (token_request cid sec) of
          None \<Rightarrow> (Inl RequestException, self1, w1)
        | Some r \<Rightarrow>
            (case body r of
               None \<Rightarrow> (Inl JSONDecodeError, self1, w1)
             | Some resp \<Rightarrow> handle_auth resp self1 w1))"
  using assms
  by (cases "is_str cid"; cases "is_str sec";
      simp add: init_def Let_def lookup_url_auth requests_post_def requests_send_def
        response_json_def split: option.splits)

lemma init_refused:
  assumes "\<not> is_str cid" and "\<not> is_str sec"
  shows "init self cid sec w =
    (Inl (TypeError (Some ''Both client_id and client_secret must be strings'')), self, w)"
  using assms by (simp add: init_def)

lemma init_keeps:
  assumes "init self cid sec w = (res, self', w')"
    and "client_id self = Some cid" and "client_secret self = Some sec"
  shows "client_id self' = Some cid \<and> client_secret self' = Some sec \<and>
         (sent w' = sent w \<or> sent w' = sent w @ [token_request cid sec])"
proof (cases "is_str cid \<or> is_str sec")
  case False
  with assms show ?thesis by (simp add: init_refused)
next
  case True
  show ?thesis
  proof (cases "server w (sent w) (token_request cid sec)")
    case None
    with assms True show ?thesis by (auto simp: init_eq Let_def)
  next
    case (Some r)
    show ?thesis
    proof (cases "body r")
      case None
      with assms True Some show ?thesis by (auto simp: init_eq Let_def)
    next
      case (Some resp)
      with assms True \<open>server w (sent w) (token_request cid sec) = Some r\<close>
      have "handle_auth resp
              (self\<lparr>urls := Some url_table, client_id := Some cid, client_secret := Some sec\<rparr>)
              (w\<lparr>sent := sent w @ [token_request cid sec]\<rparr>) = (res, self', w')"
        by (simp add: init_eq Let_def)
      from handle_auth_keeps [OF this] show ?thesis by simp
    qed
  qed
qed

lemma update_token_eq:
  assumes "start self = Some s" and "client_id self = Some cid"
    and "client_secret self = Some sec"
  shows "update_token self w =
    (if clock w (reads w) - s > 3600
     then init self cid sec (w\<lparr>reads := Suc (reads w)\<rparr>)
     else (Inr (), self, w\<lparr>reads := Suc (reads w)\<rparr>))"
  using assms by (simp add: update_token_def time_def Let_def)

lemma update_token_keeps:
  assumes "update_token self w = (res, self', w')"
  shows "client_id self' = client_id self \<and> client_secret self' = client_secret self \<and>
         (sent w' = sent w \<or>
          (\<exists>cid sec. client_id self = Some cid \<and> client_secret self = Some sec \<and>
             sent w' = sent w @ [token_request cid sec]))"
proof (cases "start self")
  case None
  with assms show ?thesis by (auto simp: update_token_def time_def)
next
  case (Some s)
  show ?thesis
  proof (cases "client_id self")
    case None
    with assms Some show ?thesis
      by (auto simp: update_token_def time_def Let_def split: if_splits)
  next
    case cid: (Some cid)
    show ?thesis
    proof (cases "client_secret self")
      case None
      with assms Some cid show ?thesis
        by (auto simp: update_token_def time_def Let_def split: if_splits)
    next
      case sec: (Some sec)
      show ?thesis
      proof (cases "clock w (reads w) - s > 3600")
        case False
        with assms Some cid sec show ?thesis by (auto simp: update_token_eq)
      next
        case True
        with assms Some cid sec
        have "init self cid sec (w\<lparr>reads := Suc (reads w)\<rparr>) = (res, self', w')"
          by (simp add: update_token_eq)
        from init_keeps [OF this cid sec] cid sec show ?thesis by simp
      qed
    qed
  qed
qed

section \<open>The renewal check\<close>

text \<open>
  Claim C5. Every call of the renewal check reads the clock, takes the time elapsed since
  the issue time of the token, and runs the whole of \<^verbatim>\<open>__init__\<close> again with the stored
  credentials exactly when more than 3600 seconds have elapsed; otherwise it leaves the
  object as it is and sends nothing.
\<close>

theorem update_token_policy:
  assumes "start self = Some s"
    and "client_id self = Some cid"
    and "client_secret self = Some sec"
  shows "update_token self w =
    (if clock w (reads w) - s > 3600
     then init self cid sec (w\<lparr>reads := Suc (reads w)\<rparr>)
     else (Inr (), self, w\<lparr>reads := Suc (reads w)\<rparr>))"
  using assms by (simp add: update_token_def time_def Let_def)

theorem update_token_policy_witness:
  "start old_client = Some 0 \<and> client_id old_client = Some (PyStr ''id'') \<and>
   client_secret old_client = Some (PyStr ''secret'') \<and>
   update_token old_client (world_at 3600 granting_server) =
     (Inr (), old_client, (world_at 3600 granting_server)\<lparr>reads := 1\<rparr>) \<and>
   update_token old_client (world_at 3601 granting_server) =
     init old_client (PyStr ''id'') (PyStr ''secret'')
       ((world_at 3601 granting_server)\<lparr>reads := 1\<rparr>) \<and>
   sent (snd (snd (update_token old_client (world_at 3601 granting_server)))) =
     [token_request (PyStr ''id'') (PyStr ''secret'')]"
proof -
  have a: "start old_client = Some 0" and b: "client_id old_client = Some (PyStr ''id'')"
    and c: "client_secret old_client = Some (PyStr ''secret'')"
    by (simp_all add: old_client_def)
  have late: "sent (snd (snd (init old_client (PyStr ''id'') (PyStr ''secret'')
       ((world_at 3601 granting_server)\<lparr>reads := 1\<rparr>)))) =
     [token_request (PyStr ''id'') (PyStr ''secret'')]"
    by (simp add: init_eq Let_def world_at_def granting_server_def handle_auth_field)
  show ?thesis
    using update_token_policy [OF a b c, of "world_at 3600 granting_server"]
      update_token_policy [OF a b c, of "world_at 3601 granting_server"] a b c late
    by (simp add: world_at_def)
qed

section \<open>The two queries\<close>

text \<open>
  Claim C7. On an authenticated client, \<^verbatim>\<open>genres\<close> first runs the renewal check; when
  the check returns, it sends one GET to the API root followed by
  \<^verbatim>\<open>recommendations/available-genre-seeds\<close>, without parameters, with the header set the
  object holds at that moment, and returns the parsed body of the response as it is.
\<close>

theorem genres_returns_body:
  assumes "update_token self w = (Inr u, self1, w1)"
    and "urls self1 = Some url_table"
    and "api_headers self1 = Some h"
  shows "genres self w =
      (outcome (server w1 (sent w1)
         \<lparr>verb = GET,
          url = ''https://api.spotify.com/v1/recommendations/available-genre-seeds'',
          params = [], data = [], headers = h\<rparr>),
       self1,
       w1\<lparr>sent := sent w1 @
         [\<lparr>verb = GET,
           url = ''https://api.spotify.com/v1/recommendations/available-genre-seeds'',
           params = [], data = [], headers = h\<rparr>]\<rparr>) \<and>
    (\<forall>r j. server w1 (sent w1)
         \<lparr>verb = GET,
          url = ''https://api.spotify.com/v1/recommendations/available-genre-seeds'',
          params = [], data = [], headers = h\<rparr> = Some r \<and> body r = Some j
       \<longrightarrow> fst (genres self w) = Inr j)"
  using assms
  by (simp add: genres_def lookup_url_api requests_get_def requests_send_def
      response_json_def split: option.splits)

theorem genres_returns_body_witness:
  "update_token old_client (world_at 100 granting_server) =
     (Inr (), old_client, (world_at 100 granting_server)\<lparr>reads := 1\<rparr>) \<and>
   urls old_client = Some url_table \<and> api_headers old_client = Some old_headers \<and>
   genres old_client (world_at 100 granting_server) =
     (Inr (JObj [(''genres'', JArr [JStr ''pop'', JStr ''rock''])]),
      old_client,
      (world_at 100 granting_server)\<lparr>reads := 1, sent :=
        [\<lparr>verb = GET,
          url = ''https://api.spotify.com/v1/recommendations/available-genre-seeds'',
          params = [], data = [], headers = old_headers\<rparr>]\<rparr>) \<and>
   genres old_client (world_at 7200 granting_server) =
     (Inr (JObj [(''genres'', JArr [JStr ''pop'', JStr ''rock''])]),
      \<lparr>urls = Some url_table, client_id = Some (PyStr ''id''),
       client_secret = Some (PyStr ''secret''), start = Some 7200,
       api_headers = Some [(''Accept'', ''application/json''),
         (''Content-Type'', ''application/json''), (''Authorization'', ''Bearer NEW'')],
       access_token = None\<rparr>,
      (world_at 7200 granting_server)\<lparr>reads := 2, sent :=
        [token_request (PyStr ''id'') (PyStr ''secret''),
         \<lparr>verb = GET,
          url = ''https://api.spotify.com/v1/recommendations/available-genre-seeds'',
          params = [], data = [],
          headers = [(''Accept'', ''application/json''),
            (''Content-Type'', ''application/json''), (''Authorization'', ''Bearer NEW'')]\<rparr>],
        printed := [AccessGranted]\<rparr>)"
proof -
  have a2: "update_token old_client (world_at 7200 granting_server) =
     (Inr (),
      \<lparr>urls = Some url_table, client_id = Some (PyStr ''id''),
       client_secret = Some (PyStr ''secret''), start = Some 7200,
       api_headers = Some [(''Accept'', ''application/json''),
         (''Content-Type'', ''application/json''), (''Authorization'', ''Bearer NEW'')],
       access_token = None\<rparr>,
      (world_at 7200 granting_server)\<lparr>reads := 2,
        sent := [token_request (PyStr ''id'') (PyStr ''secret'')],
        printed := [AccessGranted]\<rparr>)"
    by (simp add: update_token_def time_def Let_def init_eq handle_auth_field
        old_client_def world_at_def granting_server_def)
  have b2: "urls \<lparr>urls = Some url_table, client_id = Some (PyStr ''id''),
       client_secret = Some (PyStr ''secret''), start = Some 7200,
       api_headers = Some [(''Accept'', ''application/json''),
         (''Content-Type'', ''application/json''), (''Authorization'', ''Bearer NEW'')],
       access_token = None\<rparr> = Some url_table"
    by simp
  have c2: "api_headers \<lparr>urls = Some url_table, client_id = Some (PyStr ''id''),
       client_secret = Some (PyStr ''secret''), start = Some (7200::real),
       api_headers = Some [(''Accept'', ''application/json''),
         (''Content-Type'', ''application/json''), (''Authorization'', ''Bearer NEW'')],
       access_token = None\<rparr> =
     Some [(''Accept'', ''application/json''),
         (''Content-Type'', ''application/json''), (''Authorization'', ''Bearer NEW'')]"
    by simp
  have a: "update_token old_client (world_at 100 granting_server) =
     (Inr (), old_client, (world_at 100 granting_server)\<lparr>reads := 1\<rparr>)"
    by (simp add: update_token_def time_def Let_def old_client_def world_at_def)
  have b: "urls old_client = Some url_table"
    and c: "api_headers old_client = Some old_headers"
    by (simp_all add: old_client_def)
  show ?thesis
    using genres_returns_body [OF a b c] genres_returns_body [OF a2 b2 c2] a b c
    by (simp add: world_at_def granting_server_def response_json_def)
qed

text \<open>
  Claim C8. For every query string and every type string, \<^verbatim>\<open>search\<close> sends one GET to
  the API root followed by \<^verbatim>\<open>search\<close>, with the parameters \<^verbatim>\<open>q\<close> and \<^verbatim>\<open>type\<close> set to
  the two arguments as given (the type is not checked against any set of allowed values)
  and with the header set of the object, and returns the parsed body of the response as
  it is. The object is not changed.
\<close>

theorem search_passes_through:
  assumes "urls self = Some url_table"
    and "api_headers self = Some h"
  shows "search self q t w =
      (outcome (server w (sent w)
         \<lparr>verb = GET, url = ''https://api.spotify.com/v1/search'',
          params = [(''q'', q), (''type'', t)], data = [], headers = h\<rparr>),
       self,
       w\<lparr>sent := sent w @
         [\<lparr>verb = GET, url = ''https://api.spotify.com/v1/search'',
           params = [(''q'', q), (''type'', t)], data = [], headers = h\<rparr>]\<rparr>) \<and>
    (\<forall>r j. server w (sent w)
         \<lparr>verb = GET, url = ''https://api.spotify.com/v1/search'',
          params = [(''q'', q), (''type'', t)], data = [], headers = h\<rparr> = Some r \<and>
         body r = Some j
       \<longrightarrow> fst (search self q t w) = Inr j)"
  using assms
  by (simp add: search_def lookup_url_api requests_get_def requests_send_def
      response_json_def split: option.splits)

theorem search_passes_through_witness:
  "urls old_client = Some url_table \<and> api_headers old_client = Some old_headers \<and>
   search old_client ''Post Malone'' ''no such type'' (world_at 100 granting_server) =
     (Inr (JObj [(''genres'', JArr [JStr ''pop'', JStr ''rock''])]),
      old_client,
      (world_at 100 granting_server)\<lparr>sent :=
        [\<lparr>verb = GET, url = ''https://api.spotify.com/v1/search'',
          params = [(''q'', ''Post Malone''), (''type'', ''no such type'')], data = [],
          headers = old_headers\<rparr>]\<rparr>)"
proof -
  have b: "urls old_client = Some url_table"
    and c: "api_headers old_client = Some old_headers"
    by (simp_all add: old_client_def)
  show ?thesis
    using search_passes_through [OF b c, of "''Post Malone''" "''no such type''"
        "world_at 100 granting_server"] b c
    by (simp add: world_at_def granting_server_def response_json_def)
qed

section \<open>Failures of a query\<close>

text \<open>
  Claim C4 says that a non-2xx response of a query is raised as an error. The code never
  looks at the status code: at the mock server that answers every GET with status 401 and
  a JSON body, both queries return that body as their ordinary result.
\<close>

theorem non_2xx_is_returned_counterexample:
  "map_option status_code
     (rejecting_server [] (query_request ''recommendations/available-genre-seeds'' []
        old_headers)) = Some 401 \<and>
   fst (genres old_client (world_at 100 rejecting_server)) =
     Inr (JObj [(''error'', JStr ''The access token expired'')]) \<and>
   map_option status_code
     (rejecting_server [] (query_request ''search'' [(''q'', ''Post Malone''),
        (''type'', ''artist'')] old_headers)) = Some 401 \<and>
   fst (search old_client ''Post Malone'' ''artist'' (world_at 100 rejecting_server)) =
     Inr (JObj [(''error'', JStr ''The access token expired'')])"
  by (simp add: genres_def search_def update_token_def time_def Let_def old_client_def
      world_at_def rejecting_server_def lookup_url_def url_table_def requests_get_def
      requests_send_def response_json_def)

text \<open>
  Claim C4, amended. Each query sends its GET exactly once (there is no retry). A network
  failure is raised to the caller as the exception of the HTTP library, and a body that is
  not JSON as a decoding error. The status code is not inspected: a response with a JSON
  body, whatever its status, is returned to the caller as the result. For \<^verbatim>\<open>genres\<close> this
  is the behaviour once the renewal check has returned.
\<close>

theorem query_failures:
  assumes "urls self = Some url_table"
    and "api_headers self = Some h"
    and "update_token self w = (Inr u, self1, w1)"
    and "urls self1 = Some url_table"
    and "api_headers self1 = Some h1"
  shows "sent (snd (snd (search self q t w))) =
      sent w @ [query_request ''search'' [(''q'', q), (''type'', t)] h] \<and>
    sent (snd (snd (genres self w))) =
      sent w1 @ [query_request ''recommendations/available-genre-seeds'' [] h1] \<and>
    (server w (sent w) (query_request ''search'' [(''q'', q), (''type'', t)] h) = None
       \<longrightarrow> fst (search self q t w) = Inl RequestException) \<and>
    (server w1 (sent w1) (query_request ''recommendations/available-genre-seeds'' [] h1) = None
       \<longrightarrow> fst (genres self w) = Inl RequestException) \<and>
    (\<forall>code. server w (sent w) (query_request ''search'' [(''q'', q), (''type'', t)] h) =
         Some \<lparr>status_code = code, body = None\<rparr>
       \<longrightarrow> fst (search self q t w) = Inl JSONDecodeError) \<and>
    (\<forall>code. server w1 (sent w1)
         (query_request ''recommendations/available-genre-seeds'' [] h1) =
         Some \<lparr>status_code = code, body = None\<rparr>
       \<longrightarrow> fst (genres self w) = Inl JSONDecodeError) \<and>
    (\<forall>code j. server w (sent w) (query_request ''search'' [(''q'', q), (''type'', t)] h) =
         Some \<lparr>status_code = code, body = Some j\<rparr>
       \<longrightarrow> fst (search self q t w) = Inr j) \<and>
    (\<forall>code j. server w1 (sent w1)
         (query_request ''recommendations/available-genre-seeds'' [] h1) =
         Some \<lparr>status_code = code, body = Some j\<rparr>
       \<longrightarrow> fst (genres self w) = Inr j)"
proof -
  note s = search_eq [OF assms(1,2), of q t w]
  note g = genres_eq [OF assms(3,4,5)]
  show ?thesis
    unfolding s g by (simp add: response_json_def)
qed

theorem query_failures_witness:
  "urls old_client = Some url_table \<and> api_headers old_client = Some old_headers \<and>
   update_token old_client (world_at 100 (\<lambda>hist r. None)) =
     (Inr (), old_client, (world_at 100 (\<lambda>hist r. None))\<lparr>reads := 1\<rparr>) \<and>
   fst (search old_client ''Post Malone'' ''artist'' (world_at 100 (\<lambda>hist r. None))) =
     Inl RequestException \<and>
   fst (genres old_client (world_at 100 (\<lambda>hist r. None))) = Inl RequestException \<and>
   sent (snd (snd (search old_client ''Post Malone'' ''artist''
     (world_at 100 (\<lambda>hist r. None))))) =
     [query_request ''search'' [(''q'', ''Post Malone''), (''type'', ''artist'')] old_headers] \<and>
   sent (snd (snd (genres old_client (world_at 100 (\<lambda>hist r. None))))) =
     [query_request ''recommendations/available-genre-seeds'' [] old_headers] \<and>
   fst (search old_client ''Post Malone'' ''artist'' (world_at 100 rejecting_server)) =
     Inr (JObj [(''error'', JStr ''The access token expired'')]) \<and>
   fst (genres old_client (world_at 100 rejecting_server)) =
     Inr (JObj [(''error'', JStr ''The access token expired'')])"
proof -
  have a': "update_token old_client (world_at 100 rejecting_server) =
     (Inr (), old_client, (world_at 100 rejecting_server)\<lparr>reads := 1\<rparr>)"
    by (simp add: update_token_def time_def Let_def old_client_def world_at_def)
  have a: "update_token old_client (world_at 100 (\<lambda>hist r. None)) =
     (Inr (), old_client, (world_at 100 (\<lambda>hist r. None))\<lparr>reads := 1\<rparr>)"
    by (simp add: update_token_def time_def Let_def old_client_def world_at_def)
  have b: "urls old_client = Some url_table"
    and c: "api_headers old_client = Some old_headers"
    by (simp_all add: old_client_def)
  show ?thesis
    using query_failures [OF b c a b c, of "''Post Malone''" "''artist''"]
      query_failures [OF b c a' b c, of "''Post Malone''" "''artist''"] a b c
    by (simp add: world_at_def rejecting_server_def)
qed

section \<open>Construction and authentication\<close>

text \<open>
  Claim C6. \<^verbatim>\<open>__init__\<close> with two strings sends exactly one request: a POST to the
  authorization endpoint whose \<^verbatim>\<open>Authorization\<close> header is \<^verbatim>\<open>Basic\<close> followed by the base64
  encoding of identifier, colon, secret, and whose body field \<^verbatim>\<open>grant_type\<close> is
  \<^verbatim>\<open>client_credentials\<close>. When the response is a JSON object with a field \<^verbatim>\<open>access_token\<close>,
  the time read after the response is stored as the issue time; the token being a string,
  the header set is built with \<^verbatim>\<open>Accept\<close> and \<^verbatim>\<open>Content-Type\<close> of \<^verbatim>\<open>application/json\<close> and
  \<^verbatim>\<open>Authorization\<close> equal to \<^verbatim>\<open>Bearer\<close> followed by the token, and the call returns. This
  holds for a fresh object and for one that is initialised again.
\<close>

theorem init_authenticates:
  "sent (snd (snd (init self (PyStr c) (PyStr k) w))) =
     sent w @
       [\<lparr>verb = POST, url = ''https://accounts.spotify.com/api/token'', params = [],
         data = [(''grant_type'', ''client_credentials'')],
         headers = [(''Authorization'', ''Basic '' @ b64encode (c @ '':'' @ k))]\<rparr>] \<and>
   (\<forall>r kvs v.
      server w (sent w)
        \<lparr>verb = POST, url = ''https://accounts.spotify.com/api/token'', params = [],
         data = [(''grant_type'', ''client_credentials'')],
         headers = [(''Authorization'', ''Basic '' @ b64encode (c @ '':'' @ k))]\<rparr> = Some r \<and>
      body r = Some (JObj kvs) \<and> map_of kvs ''access_token'' = Some v
      \<longrightarrow> start (fst (snd (init self (PyStr c) (PyStr k) w))) = Some (clock w (reads w)) \<and>
          (\<forall>tok. v = JStr tok \<longrightarrow>
             fst (init self (PyStr c) (PyStr k) w) = Inr () \<and>
             api_headers (fst (snd (init self (PyStr c) (PyStr k) w))) =
               Some [(''Accept'', ''application/json''),
                     (''Content-Type'', ''application/json''),
                     (''Authorization'', ''Bearer '' @ tok)]))"
proof -
  have str: "is_str (PyStr c) \<or> is_str (PyStr k)"
    by simp
  have log: "sent (snd (snd (init self (PyStr c) (PyStr k) w))) =
     sent w @ [token_request (PyStr c) (PyStr k)]"
  proof (cases "server w (sent w) (token_request (PyStr c) (PyStr k))")
    case None
    then show ?thesis by (simp add: init_eq [OF str] Let_def)
  next
    case (Some r)
    show ?thesis
    proof (cases "body r")
      case None
      with Some show ?thesis by (simp add: init_eq [OF str] Let_def)
    next
      case (Some resp)
      obtain res self' w' where h: "handle_auth resp
          (self\<lparr>urls := Some url_table, client_id := Some (PyStr c),
                client_secret := Some (PyStr k)\<rparr>)
          (w\<lparr>sent := sent w @ [token_request (PyStr c) (PyStr k)]\<rparr>) = (res, self', w')"
        by (metis prod_cases3)
      from handle_auth_keeps [OF h] have "sent w' = sent w @ [token_request (PyStr c) (PyStr k)]"
        by simp
      with h Some \<open>server w (sent w) (token_request (PyStr c) (PyStr k)) = Some r\<close>
      show ?thesis by (simp add: init_eq [OF str] Let_def)
    qed
  qed
  have granted: "start (fst (snd (init self (PyStr c) (PyStr k) w))) = Some (clock w (reads w)) \<and>
      (\<forall>tok. v = JStr tok \<longrightarrow>
         fst (init self (PyStr c) (PyStr k) w) = Inr () \<and>
         api_headers (fst (snd (init self (PyStr c) (PyStr k) w))) =
           Some [(''Accept'', ''application/json''),
                 (''Content-Type'', ''application/json''),
                 (''Authorization'', ''Bearer '' @ tok)])"
    if "server w (sent w) (token_request (PyStr c) (PyStr k)) = Some r"
      and "body r = Some (JObj kvs)" and "map_of kvs ''access_token'' = Some v"
    for r kvs v
    using that
    by (simp add: init_eq [OF str] Let_def handle_auth_field split: sum.splits)
  from log granted show ?thesis
    by simp
qed

theorem init_authenticates_witness:
  "granting_server [] (token_request (PyStr ''id'') (PyStr ''secret'')) =
     Some \<lparr>status_code = 200, body = Some (JObj [(''access_token'', JStr ''NEW'')])\<rparr> \<and>
   construct (PyStr ''id'') (PyStr ''secret'') (world_at 100 granting_server) =
     (Inr \<lparr>urls = Some url_table, client_id = Some (PyStr ''id''),
           client_secret = Some (PyStr ''secret''), start = Some 100,
           api_headers = Some [(''Accept'', ''application/json''),
             (''Content-Type'', ''application/json''), (''Authorization'', ''Bearer NEW'')],
           access_token = None\<rparr>,
      (world_at 100 granting_server)\<lparr>reads := 1,
        sent := [\<lparr>verb = POST, url = ''https://accounts.spotify.com/api/token'', params = [],
          data = [(''grant_type'', ''client_credentials'')],
          headers = [(''Authorization'', ''Basic aWQ6c2VjcmV0'')]\<rparr>],
        printed := [AccessGranted]\<rparr>)"
proof -
  have r: "granting_server [] (token_request (PyStr ''id'') (PyStr ''secret'')) =
     Some \<lparr>status_code = 200, body = Some (JObj [(''access_token'', JStr ''NEW'')])\<rparr>"
    by (simp add: granting_server_def)
  have v: "construct (PyStr ''id'') (PyStr ''secret'') (world_at 100 granting_server) =
     (Inr \<lparr>urls = Some url_table, client_id = Some (PyStr ''id''),
           client_secret = Some (PyStr ''secret''), start = Some 100,
           api_headers = Some [(''Accept'', ''application/json''),
             (''Content-Type'', ''application/json''), (''Authorization'', ''Bearer NEW'')],
           access_token = None\<rparr>,
      (world_at 100 granting_server)\<lparr>reads := 1,
        sent := [\<lparr>verb = POST, url = ''https://accounts.spotify.com/api/token'', params = [],
          data = [(''grant_type'', ''client_credentials'')],
          headers = [(''Authorization'', ''Basic aWQ6c2VjcmV0'')]\<rparr>],
        printed := [AccessGranted]\<rparr>)"
    by (simp add: construct_def init_eq Let_def world_at_def granting_server_def
        handle_auth_field blank_def b64encode_id_secret)
  show ?thesis
    using init_authenticates [of blank "''id''" "''secret''" "world_at 100 granting_server"] r v
    by simp
qed

section \<open>A construction whose token request is rejected\<close>

text \<open>
  Claim C3. When a construction gets a response without the field \<^verbatim>\<open>access_token\<close>, the
  object it yields has no issue time and no header set (only the sentinel
  \<^verbatim>\<open>access_token = 0\<close>), and every later query on it fails instead of returning a result:
  \<^verbatim>\<open>genres\<close> at the renewal check and \<^verbatim>\<open>search\<close> at the headers, each with the
  \<^verbatim>\<open>AttributeError\<close> of the attribute that was never assigned, and neither sends a
  request. That exception is what the code has for the authentication error of the
  specification. (A response with neither \<^verbatim>\<open>access_token\<close> nor \<^verbatim>\<open>error\<close> makes the
  constructor raise \<^verbatim>\<open>KeyError\<close>: then the caller holds no object to query.)
\<close>

theorem rejected_client_cannot_query:
  assumes "construct cid sec w = (Inr self, w')"
    and "server w (sent w) (token_request cid sec) = Some r"
    and "body r = Some resp"
    and "contains resp ''access_token'' = Inr False"
  shows "start self = None \<and> api_headers self = None \<and> access_token self = Some 0 \<and>
    (\<forall>w2. genres self w2 =
       (Inl (AttributeError ''start''), self, w2\<lparr>reads := Suc (reads w2)\<rparr>)) \<and>
    (\<forall>q t w2. search self q t w2 = (Inl (AttributeError ''api_headers''), self, w2))"
proof -
  have str: "is_str cid \<or> is_str sec"
  proof (rule ccontr)
    assume "\<not> (is_str cid \<or> is_str sec)"
    then have "init blank cid sec w =
      (Inl (TypeError (Some ''Both client_id and client_secret must be strings'')), blank, w)"
      by (simp add: init_refused)
    with assms(1) show False by (simp add: construct_def)
  qed
  have "init blank cid sec w =
    (case getitem resp ''error'' of
       Inl e \<Rightarrow> (Inl e,
         blank\<lparr>urls := Some url_table, client_id := Some cid, client_secret := Some sec\<rparr>,
         w\<lparr>sent := sent w @ [token_request cid sec]\<rparr>)
     | Inr msg \<Rightarrow> (Inr (),
         blank\<lparr>urls := Some url_table, client_id := Some cid, client_secret := Some sec,
               access_token := Some 0\<rparr>,
         w\<lparr>sent := sent w @ [token_request cid sec],
            printed := printed w @ [ErrorLine msg]\<rparr>))"
    using assms(2,3,4)
    by (simp add: init_eq [OF str] Let_def handle_auth_rejected split: sum.splits)
  with assms(1) have self: "self =
      blank\<lparr>urls := Some url_table, client_id := Some cid, client_secret := Some sec,
            access_token := Some 0\<rparr>"
    by (auto simp: construct_def split: sum.splits)
  have g: "genres self w2 = (Inl (AttributeError ''start''), self, w2\<lparr>reads := Suc (reads w2)\<rparr>)"
    for w2
    by (simp add: self genres_def update_token_def time_def blank_def)
  have s: "search self q t w2 = (Inl (AttributeError ''api_headers''), self, w2)" for q t w2
    by (simp add: self search_def lookup_url_def url_table_def blank_def)
  from g s show ?thesis
    by (simp add: self blank_def)
qed

theorem rejected_client_cannot_query_witness:
  "construct (PyStr ''id'') (PyStr ''wrong'') (world_at 100 rejecting_server) =
     (Inr \<lparr>urls = Some url_table, client_id = Some (PyStr ''id''),
           client_secret = Some (PyStr ''wrong''), start = None, api_headers = None,
           access_token = Some 0\<rparr>,
      (world_at 100 rejecting_server)\<lparr>
        sent := [token_request (PyStr ''id'') (PyStr ''wrong'')],
        printed := [ErrorLine (JStr ''invalid_client'')]\<rparr>) \<and>
   rejecting_server [] (token_request (PyStr ''id'') (PyStr ''wrong'')) =
     Some \<lparr>status_code = 400, body = Some (JObj [(''error'', JStr ''invalid_client'')])\<rparr> \<and>
   contains (JObj [(''error'', JStr ''invalid_client'')]) ''access_token'' = Inr False \<and>
   fst (genres \<lparr>urls = Some url_table, client_id = Some (PyStr ''id''),
           client_secret = Some (PyStr ''wrong''), start = None, api_headers = None,
           access_token = Some 0\<rparr> (world_at 200 granting_server)) =
     Inl (AttributeError ''start'') \<and>
   fst (search \<lparr>urls = Some url_table, client_id = Some (PyStr ''id''),
           client_secret = Some (PyStr ''wrong''), start = None, api_headers = None,
           access_token = Some 0\<rparr> ''Post Malone'' ''artist'' (world_at 200 granting_server)) =
     Inl (AttributeError ''api_headers'')"
proof -
  have a: "construct (PyStr ''id'') (PyStr ''wrong'') (world_at 100 rejecting_server) =
     (Inr \<lparr>urls = Some url_table, client_id = Some (PyStr ''id''),
           client_secret = Some (PyStr ''wrong''), start = None, api_headers = None,
           access_token = Some 0\<rparr>,
      (world_at 100 rejecting_server)\<lparr>
        sent := [token_request (PyStr ''id'') (PyStr ''wrong'')],
        printed := [ErrorLine (JStr ''invalid_client'')]\<rparr>)"
    by (simp add: construct_def init_eq Let_def world_at_def rejecting_server_def
        handle_auth_rejected blank_def)
  have b: "server (world_at 100 rejecting_server) (sent (world_at 100 rejecting_server))
      (token_request (PyStr ''id'') (PyStr ''wrong'')) =
     Some \<lparr>status_code = 400, body = Some (JObj [(''error'', JStr ''invalid_client'')])\<rparr>"
    by (simp add: world_at_def rejecting_server_def)
  have c: "body \<lparr>status_code = 400, body = Some (JObj [(''error'', JStr ''invalid_client'')])\<rparr>
      = Some (JObj [(''error'', JStr ''invalid_client'')])"
    by simp
  have d: "contains (JObj [(''error'', JStr ''invalid_client'')]) ''access_token'' = Inr False"
    by simp
  show ?thesis
    using rejected_client_cannot_query [OF a b c d] a b d
    by (simp add: world_at_def)
qed

section \<open>A renewal that is rejected\<close>

text \<open>
  Claim C10. On a client that was authenticated, a renewal whose response has no field
  \<^verbatim>\<open>access_token\<close> leaves the header set with the old bearer token, and the old issue
  time, in place. When the response carries an \<^verbatim>\<open>error\<close> field, so that \<^verbatim>\<open>__init__\<close>
  returns, \<^verbatim>\<open>genres\<close> goes on after the token request and sends its GET with the old
  headers, and its result is whatever the server answers to that GET, not an
  authentication error; a later \<^verbatim>\<open>search\<close> sends the old headers too.
\<close>

theorem rejected_renewal_keeps_old_token:
  assumes "api_headers self = Some h"
    and "start self = Some s"
    and "client_id self = Some cid"
    and "client_secret self = Some sec"
    and "is_str cid \<or> is_str sec"
    and "clock w (reads w) - s > 3600"
    and "server w (sent w) (token_request cid sec) = Some r"
    and "body r = Some resp"
    and "contains resp ''access_token'' = Inr False"
  shows "api_headers (fst (snd (update_token self w))) = Some h \<and>
    start (fst (snd (update_token self w))) = Some s \<and>
    (\<forall>msg. getitem resp ''error'' = Inr msg \<longrightarrow>
       fst (update_token self w) = Inr () \<and>
       sent (snd (snd (genres self w))) =
         sent w @ [token_request cid sec,
                   query_request ''recommendations/available-genre-seeds'' [] h] \<and>
       fst (genres self w) =
         outcome (server w (sent w @ [token_request cid sec])
           (query_request ''recommendations/available-genre-seeds'' [] h)) \<and>
       (\<forall>q t w2. sent (snd (snd (search (fst (snd (genres self w))) q t w2))) =
          sent w2 @ [query_request ''search'' [(''q'', q), (''type'', t)] h]))"
proof -
  let ?self1 = "self\<lparr>urls := Some url_table, client_id := Some cid, client_secret := Some sec\<rparr>"
  let ?w1 = "w\<lparr>reads := Suc (reads w), sent := sent w @ [token_request cid sec]\<rparr>"
  have upd: "update_token self w =
    (case getitem resp ''error'' of
       Inl e \<Rightarrow> (Inl e, ?self1, ?w1)
     | Inr msg \<Rightarrow> (Inr (), ?self1\<lparr>access_token := Some 0\<rparr>,
                   ?w1\<lparr>printed := printed w @ [ErrorLine msg]\<rparr>))"
    using assms(6,7,8,9)
    by (simp add: update_token_eq [OF assms(2,3,4)] init_eq [OF assms(5)] Let_def
        handle_auth_rejected split: sum.splits)
  have kept: "api_headers (fst (snd (update_token self w))) = Some h \<and>
    start (fst (snd (update_token self w))) = Some s"
    using assms(1,2) by (simp add: upd split: sum.splits)
  have rest: "fst (update_token self w) = Inr () \<and>
       sent (snd (snd (genres self w))) =
         sent w @ [token_request cid sec,
                   query_request ''recommendations/available-genre-seeds'' [] h] \<and>
       fst (genres self w) =
         outcome (server w (sent w @ [token_request cid sec])
           (query_request ''recommendations/available-genre-seeds'' [] h)) \<and>
       (\<forall>q t w2. sent (snd (snd (search (fst (snd (genres self w))) q t w2))) =
          sent w2 @ [query_request ''search'' [(''q'', q), (''type'', t)] h])"
    if m: "getitem resp ''error'' = Inr msg" for msg
  proof -
    let ?self2 = "?self1\<lparr>access_token := Some 0\<rparr>"
    let ?w2 = "?w1\<lparr>printed := printed w @ [ErrorLine msg]\<rparr>"
    have u: "update_token self w = (Inr (), ?self2, ?w2)"
      using m by (simp add: upd)
    have urls2: "urls ?self2 = Some url_table" by simp
    have hdr2: "api_headers ?self2 = Some h" using assms(1) by simp
    note g = genres_eq [OF u urls2 hdr2]
    have s: "search ?self2 q t w2 =
      (outcome (server w2 (sent w2) (query_request ''search'' [(''q'', q), (''type'', t)] h)),
       ?self2, w2\<lparr>sent := sent w2 @ [query_request ''search'' [(''q'', q), (''type'', t)] h]\<rparr>)"
      for q t w2
      by (rule search_eq [OF urls2 hdr2])
    show ?thesis
      by (simp add: u g s)
  qed
  from kept rest show ?thesis
    by blast
qed

theorem rejected_renewal_keeps_old_token_witness:
  "api_headers old_client = Some old_headers \<and> start old_client = Some 0 \<and>
   clock (world_at 7200 rejecting_server) (reads (world_at 7200 rejecting_server)) - 0 > 3600 \<and>
   contains (JObj [(''error'', JStr ''invalid_client'')]) ''access_token'' = Inr False \<and>
   getitem (JObj [(''error'', JStr ''invalid_client'')]) ''error'' = Inr (JStr ''invalid_client'') \<and>
   api_headers (fst (snd (update_token old_client (world_at 7200 rejecting_server)))) =
     Some old_headers \<and>
   sent (snd (snd (genres old_client (world_at 7200 rejecting_server)))) =
     [token_request (PyStr ''id'') (PyStr ''secret''),
      query_request ''recommendations/available-genre-seeds'' [] old_headers] \<and>
   fst (genres old_client (world_at 7200 rejecting_server)) =
     Inr (JObj [(''error'', JStr ''The access token expired'')])"
proof -
  have a: "api_headers old_client = Some old_headers" and b: "start old_client = Some 0"
    and c: "client_id old_client = Some (PyStr ''id'')"
    and d: "client_secret old_client = Some (PyStr ''secret'')"
    by (simp_all add: old_client_def)
  have e: "is_str (PyStr ''id'') \<or> is_str (PyStr ''secret'')" by simp
  have f: "clock (world_at 7200 rejecting_server) (reads (world_at 7200 rejecting_server)) - 0
      > 3600"
    by (simp add: world_at_def)
  have g: "server (world_at 7200 rejecting_server) (sent (world_at 7200 rejecting_server))
      (token_request (PyStr ''id'') (PyStr ''secret'')) =
     Some \<lparr>status_code = 400, body = Some (JObj [(''error'', JStr ''invalid_client'')])\<rparr>"
    by (simp add: world_at_def rejecting_server_def)
  have h: "body \<lparr>status_code = 400, body = Some (JObj [(''error'', JStr ''invalid_client'')])\<rparr>
      = Some (JObj [(''error'', JStr ''invalid_client'')])"
    by simp
  have i: "contains (JObj [(''error'', JStr ''invalid_client'')]) ''access_token'' = Inr False"
    by simp
  have j: "getitem (JObj [(''error'', JStr ''invalid_client'')]) ''error'' =
      Inr (JStr ''invalid_client'')"
    by simp
  have k: "server (world_at 7200 rejecting_server) [token_request (PyStr ''id'') (PyStr ''secret'')]
      (query_request ''recommendations/available-genre-seeds'' [] old_headers) =
     Some \<lparr>status_code = 401, body = Some (JObj [(''error'', JStr ''The access token expired'')])\<rparr>"
    by (simp add: world_at_def rejecting_server_def)
  show ?thesis
    using rejected_renewal_keeps_old_token [OF a b c d e f g h i] a b f i j k
    by (simp add: response_json_def world_at_def)
qed

section \<open>The credentials over a sequence of operations\<close>

lemma renewals_from_append:
  "renewals_from cid sec (xs @ ys) = (renewals_from cid sec xs \<and> renewals_from cid sec ys)"
  by (simp add: renewals_from_def)

lemma genres_keeps:
  assumes "genres self w = (res, self', w')"
  shows "client_id self' = client_id self \<and> client_secret self' = client_secret self \<and>
    (\<exists>new. sent w' = sent w @ new \<and> renewals_from (client_id self) (client_secret self) new)"
proof -
  obtain r1 self1 w1 where u: "update_token self w = (r1, self1, w1)"
    by (metis prod_cases3)
  from update_token_keeps [OF u]
  have creds: "client_id self1 = client_id self" "client_secret self1 = client_secret self"
    and log: "sent w1 = sent w \<or>
      (\<exists>cid sec. client_id self = Some cid \<and> client_secret self = Some sec \<and>
         sent w1 = sent w @ [token_request cid sec])"
    by simp_all
  from log obtain new1 where n1: "sent w1 = sent w @ new1"
    "renewals_from (client_id self) (client_secret self) new1"
    by (auto simp: renewals_from_def)
  from assms u have "self' = self1 \<and>
    (sent w' = sent w1 \<or> (\<exists>r. verb r = GET \<and> sent w' = sent w1 @ [r]))"
    by (auto simp: genres_def requests_get_def requests_send_def
        split: sum.splits option.splits)
  then have same: "self' = self1"
    and "\<exists>new2. sent w' = sent w1 @ new2 \<and>
      renewals_from (client_id self) (client_secret self) new2"
    by (auto simp: renewals_from_def)
  then obtain new2 where n2: "sent w' = sent w1 @ new2"
    "renewals_from (client_id self) (client_secret self) new2"
    by blast
  from n1 n2 have "sent w' = sent w @ (new1 @ new2) \<and>
    renewals_from (client_id self) (client_secret self) (new1 @ new2)"
    by (simp add: renewals_from_append)
  with creds same show ?thesis
    by blast
qed

lemma step_keeps:
  assumes "step c (self, w) = (self', w')"
  shows "client_id self' = client_id self \<and> client_secret self' = client_secret self \<and>
    (\<exists>new. sent w' = sent w @ new \<and> renewals_from (client_id self) (client_secret self) new)"
proof (cases c)
  case Genres
  with assms have "genres self w = (fst (genres self w), self', w')"
    by (simp add: prod_eq_iff)
  from genres_keeps [OF this] show ?thesis .
next
  case (Search q t)
  with assms have "search self q t w = (fst (search self q t w), self', w')"
    by (simp add: prod_eq_iff)
  from search_keeps [OF this] show ?thesis
    by (auto simp: renewals_from_def)
next
  case UpdateToken
  with assms have "update_token self w = (fst (update_token self w), self', w')"
    by (simp add: prod_eq_iff)
  from update_token_keeps [OF this] show ?thesis
    by (auto simp: renewals_from_def)
qed

text \<open>
  Claim C9. Over every sequence of \<^verbatim>\<open>genres\<close>, \<^verbatim>\<open>search\<close> and renewal checks on one
  instance, whatever the clock and the server do, the stored client identifier and client
  secret stay what they were, and every POST sent on the way is the token request built
  from exactly those stored values.
\<close>

theorem credentials_immutable:
  "client_id (fst (run cs (self, w))) = client_id self \<and>
   client_secret (fst (run cs (self, w))) = client_secret self \<and>
   (\<exists>new. sent (snd (run cs (self, w))) = sent w @ new \<and>
      renewals_from (client_id self) (client_secret self) new)"
proof (induction cs arbitrary: self w)
  case Nil
  show ?case by (simp add: renewals_from_def)
next
  case (Cons c cs)
  obtain self1 w1 where s: "step c (self, w) = (self1, w1)"
    by (cases "step c (self, w)")
  from step_keeps [OF s] obtain new1
    where creds: "client_id self1 = client_id self" "client_secret self1 = client_secret self"
      and n1: "sent w1 = sent w @ new1"
        "renewals_from (client_id self) (client_secret self) new1"
    by blast
  from Cons.IH [of self1 w1] creds obtain new2
    where ih: "client_id (fst (run cs (self1, w1))) = client_id self"
        "client_secret (fst (run cs (self1, w1))) = client_secret self"
      and n2: "sent (snd (run cs (self1, w1))) = sent w1 @ new2"
        "renewals_from (client_id self) (client_secret self) new2"
    by auto
  from n1 n2 have "sent (snd (run cs (self1, w1))) = sent w @ (new1 @ new2) \<and>
    renewals_from (client_id self) (client_secret self) (new1 @ new2)"
    by (simp add: renewals_from_append)
  with ih s show ?case
    by auto
qed

theorem credentials_immutable_witness:
  "run [Genres, Search ''Post Malone'' ''artist'', UpdateToken]
     (old_client, world_at 7200 granting_server) =
     (old_client\<lparr>start := Some 7200, api_headers := Some
        [(''Accept'', ''application/json''), (''Content-Type'', ''application/json''),
         (''Authorization'', ''Bearer NEW'')]\<rparr>,
      (world_at 7200 granting_server)\<lparr>reads := 3,
        sent := [token_request (PyStr ''id'') (PyStr ''secret''),
          query_request ''recommendations/available-genre-seeds'' []
            [(''Accept'', ''application/json''), (''Content-Type'', ''application/json''),
             (''Authorization'', ''Bearer NEW'')],
          query_request ''search'' [(''q'', ''Post Malone''), (''type'', ''artist'')]
            [(''Accept'', ''application/json''), (''Content-Type'', ''application/json''),
             (''Authorization'', ''Bearer NEW'')]],
        printed := [AccessGranted]\<rparr>) \<and>
   client_id (fst (run [Genres, Search ''Post Malone'' ''artist'', UpdateToken]
     (old_client, world_at 7200 granting_server))) = Some (PyStr ''id'') \<and>
   client_secret (fst (run [Genres, Search ''Post Malone'' ''artist'', UpdateToken]
     (old_client, world_at 7200 granting_server))) = Some (PyStr ''secret'') \<and>
   renewals_from (Some (PyStr ''id'')) (Some (PyStr ''secret''))
     (sent (snd (run [Genres, Search ''Post Malone'' ''artist'', UpdateToken]
       (old_client, world_at 7200 granting_server))))"
proof -
  have r: "run [Genres, Search ''Post Malone'' ''artist'', UpdateToken]
     (old_client, world_at 7200 granting_server) =
     (old_client\<lparr>start := Some 7200, api_headers := Some
        [(''Accept'', ''application/json''), (''Content-Type'', ''application/json''),
         (''Authorization'', ''Bearer NEW'')]\<rparr>,
      (world_at 7200 granting_server)\<lparr>reads := 3,
        sent := [token_request (PyStr ''id'') (PyStr ''secret''),
          query_request ''recommendations/available-genre-seeds'' []
            [(''Accept'', ''application/json''), (''Content-Type'', ''application/json''),
             (''Authorization'', ''Bearer NEW'')],
          query_request ''search'' [(''q'', ''Post Malone''), (''type'', ''artist'')]
            [(''Accept'', ''application/json''), (''Content-Type'', ''application/json''),
             (''Authorization'', ''Bearer NEW'')]],
        printed := [AccessGranted]\<rparr>)"
    by (simp add: genres_def search_def update_token_def time_def Let_def init_eq
        handle_auth_field old_client_def world_at_def granting_server_def lookup_url_def
        url_table_def requests_get_def requests_send_def response_json_def)
  have c: "client_id old_client = Some (PyStr ''id'')"
    and d: "client_secret old_client = Some (PyStr ''secret'')"
    and e: "sent (world_at 7200 granting_server) = []"
    by (simp_all add: old_client_def world_at_def)
  show ?thesis
    using credentials_immutable [of "[Genres, Search ''Post Malone'' ''artist'', UpdateToken]"
        old_client "world_at 7200 granting_server"] r
    unfolding c d e
    by simp
qed

section \<open>Where the code departs from its documentation\<close>

text \<open>
  Claim C1 asks for the renewal check before the GET of every query. \<^verbatim>\<open>genres\<close> does it;
  \<^verbatim>\<open>search\<close> does not call \<^verbatim>\<open>update_token\<close>. With a token issued at time 0 and the clock at
  7200, \<^verbatim>\<open>search\<close> reads no clock, sends no token request and sends its GET with the
  expired token, where \<^verbatim>\<open>genres\<close> on the same client first sends the token request and
  then its GET with the new token.
\<close>

theorem search_skips_renewal:
  "start old_client = Some 0 \<and>
   clock (world_at 7200 granting_server) 0 - 0 > 3600 \<and>
   search old_client ''post malone'' ''artist'' (world_at 7200 granting_server) =
     (Inr (JObj [(''genres'', JArr [JStr ''pop'', JStr ''rock''])]),
      old_client,
      (world_at 7200 granting_server)\<lparr>sent :=
        [\<lparr>verb = GET, url = ''https://api.spotify.com/v1/search'',
          params = [(''q'', ''post malone''), (''type'', ''artist'')], data = [],
          headers = [(''Accept'', ''application/json''),
            (''Content-Type'', ''application/json''),
            (''Authorization'', ''Bearer OLD'')]\<rparr>]\<rparr>) \<and>
   sent (snd (snd (genres old_client (world_at 7200 granting_server)))) =
     [\<lparr>verb = POST, url = ''https://accounts.spotify.com/api/token'', params = [],
       data = [(''grant_type'', ''client_credentials'')],
       headers = [(''Authorization'', ''Basic aWQ6c2VjcmV0'')]\<rparr>,
      \<lparr>verb = GET,
       url = ''https://api.spotify.com/v1/recommendations/available-genre-seeds'',
       params = [], data = [],
       headers = [(''Accept'', ''application/json''),
         (''Content-Type'', ''application/json''),
         (''Authorization'', ''Bearer NEW'')]\<rparr>]"
  by (simp add: genres_def search_def update_token_def time_def Let_def init_eq
      handle_auth_field old_client_def old_headers_def world_at_def granting_server_def
      lookup_url_def url_table_def requests_get_def requests_send_def response_json_def
      b64encode_id_secret)

text \<open>
  Claim C2 asks for the configuration error when either credential is missing or not a
  string. The check of \<^verbatim>\<open>__init__\<close> joins the two tests with \<^verbatim>\<open>and\<close>, under the message
  that both must be strings: with the identifier a string and the secret left at its
  default \<^verbatim>\<open>None\<close>, nothing is raised and the token request goes out with the credentials
  \<^verbatim>\<open>abc:None\<close>; likewise with only the identifier missing. The error is raised, before any
  request, only when neither is a string.
\<close>

theorem one_missing_credential_is_accepted:
  "construct (PyStr ''abc'') PyNone (world_at 100 granting_server) =
     (Inr \<lparr>urls = Some url_table, client_id = Some (PyStr ''abc''),
           client_secret = Some PyNone, start = Some 100,
           api_headers = Some [(''Accept'', ''application/json''),
             (''Content-Type'', ''application/json''), (''Authorization'', ''Bearer NEW'')],
           access_token = None\<rparr>,
      (world_at 100 granting_server)\<lparr>reads := 1,
        sent := [\<lparr>verb = POST, url = ''https://accounts.spotify.com/api/token'', params = [],
          data = [(''grant_type'', ''client_credentials'')],
          headers = [(''Authorization'', ''Basic YWJjOk5vbmU='')]\<rparr>],
        printed := [AccessGranted]\<rparr>) \<and>
   fst (construct PyNone (PyStr ''secret'') (world_at 100 granting_server)) \<noteq>
     Inl (TypeError (Some ''Both client_id and client_secret must be strings'')) \<and>
   length (sent (snd (construct PyNone (PyStr ''secret'') (world_at 100 granting_server)))) = 1 \<and>
   construct PyNone (PyOther ''5'') (world_at 100 granting_server) =
     (Inl (TypeError (Some ''Both client_id and client_secret must be strings'')),
      world_at 100 granting_server)"
  by (simp add: construct_def init_eq init_refused Let_def handle_auth_field blank_def
      world_at_def granting_server_def b64encode_abc_None)

end
